theory Spec2Isabelle
  imports Complex_Main
begin

section \<open>The Drop Zone API: documents, payloads and the store\<close>

text \<open>
  The backend keeps all of its state in four collections of a document store
  (\<^verbatim>\<open>db["otp"]\<close>, \<^verbatim>\<open>db["session"]\<close>, \<^verbatim>\<open>db["product"]\<close>, \<^verbatim>\<open>db["cart"]\<close>).
  A collection is a list of documents in insertion order; \<^verbatim>\<open>find_one\<close> returns the
  first document that matches, \<^verbatim>\<open>update_one\<close> changes the first document that matches,
  \<^verbatim>\<open>insert_one\<close> appends and rejects a second document with the same \<^verbatim>\<open>_id\<close>.
  The store hands out copies: changing a document that was read does not change the
  collection until it is written back.

  A field read with \<^verbatim>\<open>d.get(k)\<close> or \<^verbatim>\<open>d.get(k, default)\<close> is an option (\<open>None\<close>: the
  key is absent); a field read with \<^verbatim>\<open>d[k]\<close> is always there. Strings are lists of
  characters with code points below 256.
\<close>

datatype error = HTTPException int string | DuplicateKeyError

record SizeStock =
  ss_size :: "string option"
  ss_stock :: "int option"

text \<open>Of a product the handlers read the slug, name, price, accent, images and sizes.
  The price is a Python float: its type \<open>'f\<close> and its arithmetic are parameters.\<close>

record 'f Product =
  p_slug :: string
  p_name :: "string option"
  p_price :: "'f option"
  p_accent :: "string option"
  p_images :: "string list option"
  p_sizes :: "SizeStock list option"

record otp_doc =
  otp_phone :: string
  otp_code :: "string option"

record session_doc =
  s_id :: string
  s_phone :: string

record item =
  i_slug :: string
  i_size :: "string option"
  i_qty :: "int option"

text \<open>A cart document is written by \<^verbatim>\<open>get_cart\<close> (with \<^verbatim>\<open>"subtotal": 0\<close>) or by
  \<^verbatim>\<open>add_to_cart\<close> (without it), both with \<^verbatim>\<open>"items"\<close>; so \<^verbatim>\<open>cart.get("items", [])\<close> of
  \<^verbatim>\<open>update_cart\<close> reads the same field as \<^verbatim>\<open>cart["items"]\<close>.\<close>

record cart_doc =
  c_id :: string
  c_items :: "item list"
  c_subtotal :: "int option"

record 'f db =
  db_otp :: "otp_doc list"
  db_session :: "session_doc list"
  db_product :: "'f Product list"
  db_cart :: "cart_doc list"

record OTPRequest =
  or_phone :: string

record OTPVerify =
  ov_phone :: string
  ov_code :: string

record QuickAdd =
  qa_slug :: string
  qa_size :: "string option"
  qa_qty :: int

record UpdateItem =
  ui_slug :: string
  ui_size :: string
  ui_qty :: "int option"
  ui_remove :: "bool option"

text \<open>The float operations \<^verbatim>\<open>get_cart\<close> uses: \<^verbatim>\<open>float(n)\<close> of an integer,
  \<^verbatim>\<open>+\<close>, \<^verbatim>\<open>*\<close> and \<^verbatim>\<open>round(x, 2)\<close>.\<close>

record 'f float_ops =
  f_of_int :: "int \<Rightarrow> 'f"
  f_add :: "'f \<Rightarrow> 'f \<Rightarrow> 'f"
  f_mul :: "'f \<Rightarrow> 'f \<Rightarrow> 'f"
  f_round2 :: "'f \<Rightarrow> 'f"

text \<open>What \<^verbatim>\<open>get_cart\<close> attaches to a line item whose product resolves, and the cart
  it returns.\<close>

record 'f enrichment =
  e_name :: "string option"
  e_price :: "'f option"
  e_accent :: "string option"
  e_image :: "string option"

type_synonym 'f view_item = "item \<times> 'f enrichment option"

record 'f cart_view =
  v_id :: string
  v_items :: "'f view_item list"
  v_subtotal :: 'f

subsection \<open>Python's truth values and \<^verbatim>\<open>str.strip\<close>\<close>

text \<open>\<^verbatim>\<open>if not size\<close>: \<^verbatim>\<open>None\<close> and the empty string are false.\<close>

definition truthy_str :: "string option \<Rightarrow> bool" where
  "truthy_str s = (case s of None \<Rightarrow> False | Some t \<Rightarrow> t \<noteq> [])"

text \<open>\<^verbatim>\<open>payload.remove\<close> is an \<^verbatim>\<open>Optional[bool]\<close>: \<^verbatim>\<open>None\<close> is false.\<close>

definition truthy_bool :: "bool option \<Rightarrow> bool" where
  "truthy_bool b = (case b of None \<Rightarrow> False | Some t \<Rightarrow> t)"

text \<open>\<^verbatim>\<open>str.isspace\<close> on the code points below 256: tab to carriage return, the four
  separators 28 to 31, the space, NEL (133) and the no-break space (160).\<close>

definition is_space :: "char \<Rightarrow> bool" where
  "is_space c = (let n = (of_char c :: nat) in
     (9 \<le> n \<and> n \<le> 13) \<or> (28 \<le> n \<and> n \<le> 32) \<or> n = 133 \<or> n = 160)"

definition strip :: "string \<Rightarrow> string" where
  "strip s = rev (dropWhile is_space (rev (dropWhile is_space s)))"

subsection \<open>Store operations\<close>

definition find_otp :: "otp_doc list \<Rightarrow> string \<Rightarrow> otp_doc option" where
  "find_otp ds ph = find (\<lambda>d. otp_phone d = ph) ds"

text \<open>\<^verbatim>\<open>update_one({"phone": phone}, {"$set": {"phone": phone, "code": c}}, upsert=True)\<close>\<close>

fun upsert_otp :: "otp_doc list \<Rightarrow> string \<Rightarrow> string \<Rightarrow> otp_doc list" where
  "upsert_otp [] ph c = [\<lparr>otp_phone = ph, otp_code = Some c\<rparr>]"
| "upsert_otp (d # ds) ph c =
     (if otp_phone d = ph then d\<lparr>otp_phone := ph, otp_code := Some c\<rparr> # ds
      else d # upsert_otp ds ph c)"

definition insert_session :: "session_doc list \<Rightarrow> session_doc \<Rightarrow> error + session_doc list" where
  "insert_session ss s =
     (if list_ex (\<lambda>t. s_id t = s_id s) ss then Inl DuplicateKeyError else Inr (ss @ [s]))"

definition find_product :: "'f Product list \<Rightarrow> string \<Rightarrow> 'f Product option" where
  "find_product ps sl = find (\<lambda>p. p_slug p = sl) ps"

definition find_cart :: "cart_doc list \<Rightarrow> string \<Rightarrow> cart_doc option" where
  "find_cart cs cid = find (\<lambda>c. c_id c = cid) cs"

definition insert_cart :: "cart_doc list \<Rightarrow> cart_doc \<Rightarrow> error + cart_doc list" where
  "insert_cart cs c =
     (if list_ex (\<lambda>d. c_id d = c_id c) cs then Inl DuplicateKeyError else Inr (cs @ [c]))"

text \<open>\<^verbatim>\<open>update_one({"_id": cart_id}, {"$set": {"items": items}})\<close>\<close>

fun set_items :: "cart_doc list \<Rightarrow> string \<Rightarrow> item list \<Rightarrow> cart_doc list" where
  "set_items [] cid its = []"
| "set_items (c # cs) cid its =
     (if c_id c = cid then c\<lparr>c_items := its\<rparr> # cs else c # set_items cs cid its)"

section \<open>Auth: phone and one-time code\<close>

definition request_otp :: "'f db \<Rightarrow> OTPRequest \<Rightarrow> 'f db \<times> (error + string)" where
  "request_otp d payload =
     (let phone = strip (or_phone payload) in
      if phone = [] then (d, Inl (HTTPException 400 ''Phone required''))
      else (d\<lparr>db_otp := upsert_otp (db_otp d) phone ''123456''\<rparr>, Inr ''123456''))"

text \<open>\<^verbatim>\<open>ObjectId()\<close> is drawn by the driver: the identity it returns is the argument
  \<open>oid\<close>. The result is the \<^verbatim>\<open>session_id\<close> of the response.\<close>

definition verify_otp :: "'f db \<Rightarrow> string \<Rightarrow> OTPVerify \<Rightarrow> 'f db \<times> (error + string)" where
  "verify_otp d oid payload =
     (case find_otp (db_otp d) (ov_phone payload) of
        None \<Rightarrow> (d, Inl (HTTPException 401 ''Invalid code''))
      | Some doc \<Rightarrow>
          if Some (ov_code payload) \<noteq> otp_code doc
          then (d, Inl (HTTPException 401 ''Invalid code''))
          else (case insert_session (db_session d) \<lparr>s_id = oid, s_phone = ov_phone payload\<rparr> of
                  Inl e \<Rightarrow> (d, Inl e)
                | Inr ss \<Rightarrow> (d\<lparr>db_session := ss\<rparr>, Inr oid)))"

section \<open>Cart\<close>

definition qty_or_1 :: "item \<Rightarrow> int" where
  "qty_or_1 i = (case i_qty i of None \<Rightarrow> 1 | Some q \<Rightarrow> q)"

definition price_or_0 :: "'f float_ops \<Rightarrow> 'f Product \<Rightarrow> 'f" where
  "price_or_0 F p = (case p_price p of None \<Rightarrow> f_of_int F 0 | Some x \<Rightarrow> x)"

text \<open>\<^verbatim>\<open>(p.get("images") or [None])[0]\<close>\<close>

definition first_image :: "'f Product \<Rightarrow> string option" where
  "first_image p = (case p_images p of None \<Rightarrow> None | Some [] \<Rightarrow> None | Some (x # _) \<Rightarrow> Some x)"

definition enrich :: "'f Product \<Rightarrow> 'f enrichment" where
  "enrich p = \<lparr>e_name = p_name p, e_price = p_price p, e_accent = p_accent p,
              e_image = first_image p\<rparr>"

text \<open>The loop of \<^verbatim>\<open>get_cart\<close> over \<^verbatim>\<open>cart["items"]\<close>, with the running subtotal.\<close>

fun enrich_items :: "'f float_ops \<Rightarrow> 'f Product list \<Rightarrow> item list \<Rightarrow> 'f \<Rightarrow> 'f view_item list \<times> 'f" where
  "enrich_items F ps [] subtotal = ([], subtotal)"
| "enrich_items F ps (it # its) subtotal =
     (case find_product ps (i_slug it) of
        None \<Rightarrow> (let (vs, s) = enrich_items F ps its subtotal in ((it, None) # vs, s))
      | Some p \<Rightarrow>
          (let (vs, s) = enrich_items F ps its
                 (f_add F subtotal (f_mul F (f_of_int F (qty_or_1 it)) (price_or_0 F p)))
           in ((it, Some (enrich p)) # vs, s)))"

definition get_cart :: "'f float_ops \<Rightarrow> 'f db \<Rightarrow> string \<Rightarrow> 'f db \<times> (error + 'f cart_view)" where
  "get_cart F d cart_id =
     (let fetched =
        (case find_cart (db_cart d) cart_id of
           Some cart \<Rightarrow> Inr (d, cart)
         | None \<Rightarrow>
             (let cart = \<lparr>c_id = cart_id, c_items = [], c_subtotal = Some 0\<rparr> in
              case insert_cart (db_cart d) cart of
                Inl e \<Rightarrow> Inl e
              | Inr cs \<Rightarrow> Inr (d\<lparr>db_cart := cs\<rparr>, cart)))
      in case fetched of
           Inl e \<Rightarrow> (d, Inl e)
         | Inr (d', cart) \<Rightarrow>
             (let (vs, subtotal) = enrich_items F (db_product d') (c_items cart) (f_of_int F 0)
              in (d', Inr \<lparr>v_id = c_id cart, v_items = vs, v_subtotal = f_round2 F subtotal\<rparr>)))"

text \<open>\<^verbatim>\<open>next((s.get("size") for s in sizes if s.get("stock", 0) > 0), None)\<close>\<close>

definition in_stock :: "SizeStock \<Rightarrow> bool" where
  "in_stock s = ((case ss_stock s of None \<Rightarrow> 0 | Some n \<Rightarrow> n) > 0)"

definition first_available :: "SizeStock list \<Rightarrow> string option" where
  "first_available sizes = (case find in_stock sizes of None \<Rightarrow> None | Some s \<Rightarrow> ss_size s)"

text \<open>\<^verbatim>\<open>p.get("sizes") or []\<close>, and the variable \<^verbatim>\<open>size\<close> of \<^verbatim>\<open>add_to_cart\<close> after the
  default has been chosen.\<close>

definition declared_sizes :: "'f Product \<Rightarrow> SizeStock list" where
  "declared_sizes p = (case p_sizes p of None \<Rightarrow> [] | Some l \<Rightarrow> l)"

definition resolve_size :: "'f Product \<Rightarrow> string option \<Rightarrow> string option" where
  "resolve_size p sz =
     (if \<not> truthy_str sz then first_available (declared_sizes p) else sz)"

definition matches :: "string \<Rightarrow> string \<Rightarrow> item \<Rightarrow> bool" where
  "matches sl sz i = (i_slug i = sl \<and> i_size i = Some sz)"

text \<open>\<^verbatim>\<open>exists["qty"] = exists.get("qty", 1) + n\<close> on the first matching item, in place.\<close>

fun incr_first :: "item list \<Rightarrow> string \<Rightarrow> string \<Rightarrow> int \<Rightarrow> item list" where
  "incr_first [] sl sz n = []"
| "incr_first (i # is) sl sz n =
     (if matches sl sz i then i\<lparr>i_qty := Some (qty_or_1 i + n)\<rparr> # is
      else i # incr_first is sl sz n)"

definition add_item :: "item list \<Rightarrow> string \<Rightarrow> string \<Rightarrow> int \<Rightarrow> item list" where
  "add_item its sl sz qty =
     (case find (matches sl sz) its of
        Some _ \<Rightarrow> incr_first its sl sz (max 1 qty)
      | None \<Rightarrow> its @ [\<lparr>i_slug = sl, i_size = Some sz, i_qty = Some (max 1 qty)\<rparr>])"

definition add_to_cart :: "'f db \<Rightarrow> string \<Rightarrow> QuickAdd \<Rightarrow> 'f db \<times> (error + unit)" where
  "add_to_cart d cart_id payload =
     (case find_product (db_product d) (qa_slug payload) of
        None \<Rightarrow> (d, Inl (HTTPException 404 ''Product not found''))
      | Some p \<Rightarrow>
          (case resolve_size p (qa_size payload) of
             None \<Rightarrow> (d, Inl (HTTPException 400 ''No available size''))
           | Some sz \<Rightarrow>
               if sz = [] then (d, Inl (HTTPException 400 ''No available size''))
               else
                 (let fetched =
                    (case find_cart (db_cart d) cart_id of
                       Some cart \<Rightarrow> Inr (d, cart)
                     | None \<Rightarrow>
                         (let cart = \<lparr>c_id = cart_id, c_items = [], c_subtotal = None\<rparr> in
                          case insert_cart (db_cart d) cart of
                            Inl e \<Rightarrow> Inl e
                          | Inr cs \<Rightarrow> Inr (d\<lparr>db_cart := cs\<rparr>, cart)))
                  in case fetched of
                       Inl e \<Rightarrow> (d, Inl e)
                     | Inr (d', cart) \<Rightarrow>
                         (d'\<lparr>db_cart := set_items (db_cart d') cart_id
                                (add_item (c_items cart) (qa_slug payload) sz (qa_qty payload))\<rparr>,
                          Inr ()))))"

text \<open>The loop of \<^verbatim>\<open>update_cart\<close> that builds \<^verbatim>\<open>new_items\<close>.\<close>

fun new_items :: "UpdateItem \<Rightarrow> item list \<Rightarrow> item list" where
  "new_items payload [] = []"
| "new_items payload (it # its) =
     (if i_slug it = ui_slug payload \<and> i_size it = Some (ui_size payload) then
        (if truthy_bool (ui_remove payload) \<or> (case ui_qty payload of None \<Rightarrow> False | Some q \<Rightarrow> q \<le> 0)
         then new_items payload its
         else (case ui_qty payload of
                 None \<Rightarrow> it
               | Some q \<Rightarrow> it\<lparr>i_qty := Some q\<rparr>) # new_items payload its)
      else it # new_items payload its)"

definition update_cart :: "'f db \<Rightarrow> string \<Rightarrow> UpdateItem \<Rightarrow> 'f db \<times> (error + unit)" where
  "update_cart d cart_id payload =
     (case find_cart (db_cart d) cart_id of
        None \<Rightarrow> (d, Inl (HTTPException 404 ''Cart not found''))
      | Some cart \<Rightarrow>
          (d\<lparr>db_cart := set_items (db_cart d) cart_id (new_items payload (c_items cart))\<rparr>, Inr ()))"

section \<open>Requests and reachable stores\<close>

text \<open>The state-changing endpoints. A \<open>VerifyOtp\<close> request carries the identity that
  \<^verbatim>\<open>ObjectId()\<close> draws while it is served.\<close>

datatype request =
    RequestOtp OTPRequest
  | VerifyOtp string OTPVerify
  | GetCart string
  | AddToCart string QuickAdd
  | UpdateCart string UpdateItem

fun step :: "'f float_ops \<Rightarrow> 'f db \<Rightarrow> request \<Rightarrow> 'f db" where
  "step F d (RequestOtp payload) = fst (request_otp d payload)"
| "step F d (VerifyOtp oid payload) = fst (verify_otp d oid payload)"
| "step F d (GetCart cart_id) = fst (get_cart F d cart_id)"
| "step F d (AddToCart cart_id payload) = fst (add_to_cart d cart_id payload)"
| "step F d (UpdateCart cart_id payload) = fst (update_cart d cart_id payload)"

definition run :: "'f float_ops \<Rightarrow> 'f db \<Rightarrow> request list \<Rightarrow> 'f db" where
  "run F d rs = foldl (step F) d rs"

text \<open>A sequence of \<^verbatim>\<open>add_to_cart\<close> calls on one cart, with the response of each call.\<close>

fun add_all :: "'f db \<Rightarrow> string \<Rightarrow> QuickAdd list \<Rightarrow> 'f db \<times> (error + unit) list" where
  "add_all d cart_id [] = (d, [])"
| "add_all d cart_id (payload # payloads) =
     (let (d1, r) = add_to_cart d cart_id payload;
          (d2, rs) = add_all d1 cart_id payloads
      in (d2, r # rs))"

text \<open>The store before the first request: a catalog, and nothing else.\<close>

definition init_db :: "'f Product list \<Rightarrow> 'f db" where
  "init_db ps = \<lparr>db_otp = [], db_session = [], db_product = ps, db_cart = []\<rparr>"

text \<open>The items of a cart in the store (none when the cart is absent).\<close>

definition cart_items :: "'f db \<Rightarrow> string \<Rightarrow> item list" where
  "cart_items d cart_id = (case find_cart (db_cart d) cart_id of None \<Rightarrow> [] | Some c \<Rightarrow> c_items c)"

text \<open>The cart invariant of the data model: no two line items with the same
  (slug, size) pair, and every quantity at least 1.\<close>

definition item_key :: "item \<Rightarrow> string \<times> string option" where
  "item_key i = (i_slug i, i_size i)"

definition qty_ok :: "item \<Rightarrow> bool" where
  "qty_ok i = (case i_qty i of None \<Rightarrow> False | Some q \<Rightarrow> q \<ge> 1)"

definition items_ok :: "item list \<Rightarrow> bool" where
  "items_ok its = (distinct (map item_key its) \<and> list_all qty_ok its)"

text \<open>A string has whitespace at one of its ends.\<close>

definition ws_at_ends :: "string \<Rightarrow> bool" where
  "ws_at_ends s = (s \<noteq> [] \<and> (is_space (hd s) \<or> is_space (last s)))"

definition otp_trimmed :: "'f db \<Rightarrow> bool" where
  "otp_trimmed d = list_all (\<lambda>doc. \<not> ws_at_ends (otp_phone doc)) (db_otp d)"

section \<open>The specification's vocabulary\<close>

text \<open>The update rule in the words of the specification: a matching item is dropped
  when \<open>remove\<close> is true or a quantity of at most 0 is supplied; otherwise a supplied
  quantity replaces the item's quantity; every other item passes through.\<close>

definition spec_dropped :: "UpdateItem \<Rightarrow> item \<Rightarrow> bool" where
  "spec_dropped pl it = (matches (ui_slug pl) (ui_size pl) it \<and>
     (ui_remove pl = Some True \<or> (case ui_qty pl of None \<Rightarrow> False | Some q \<Rightarrow> q \<le> 0)))"

definition spec_replaced :: "UpdateItem \<Rightarrow> item \<Rightarrow> item" where
  "spec_replaced pl it =
     (case ui_qty pl of
        None \<Rightarrow> it
      | Some q \<Rightarrow> if matches (ui_slug pl) (ui_size pl) it then it\<lparr>i_qty := Some q\<rparr> else it)"

definition spec_update :: "UpdateItem \<Rightarrow> item list \<Rightarrow> item list" where
  "spec_update pl its = map (spec_replaced pl) (filter (\<lambda>it. \<not> spec_dropped pl it) its)"

text \<open>The enrichment view in the words of the specification: an item resolves when the
  catalog has a product with its slug; a resolving item counts for quantity times price
  and carries the product's display fields; the subtotal is the rounded sum over the
  resolving items, accumulated from left to right.\<close>

definition resolves :: "'f Product list \<Rightarrow> item \<Rightarrow> bool" where
  "resolves ps it = (case find_product ps (i_slug it) of None \<Rightarrow> False | Some p \<Rightarrow> True)"

definition line_total :: "'f float_ops \<Rightarrow> 'f Product list \<Rightarrow> item \<Rightarrow> 'f" where
  "line_total F ps it =
     (case find_product ps (i_slug it) of
        None \<Rightarrow> f_of_int F 0
      | Some p \<Rightarrow> f_mul F (f_of_int F (qty_or_1 it)) (price_or_0 F p))"

definition spec_subtotal :: "'f float_ops \<Rightarrow> 'f Product list \<Rightarrow> item list \<Rightarrow> 'f" where
  "spec_subtotal F ps its =
     f_round2 F (foldl (f_add F) (f_of_int F 0) (map (line_total F ps) (filter (resolves ps) its)))"

definition spec_view_item :: "'f Product list \<Rightarrow> item \<Rightarrow> 'f view_item" where
  "spec_view_item ps it =
     (case find_product ps (i_slug it) of None \<Rightarrow> (it, None) | Some p \<Rightarrow> (it, Some (enrich p)))"

section \<open>A concrete store\<close>

text \<open>Exact rational arithmetic in place of the floats, the seeded product
  \<^verbatim>\<open>crest-tee\<close>, and a store with one pending code and one cart; the cart's second
  item names a product that is no longer in the catalog.\<close>

definition exact_ops :: "rat float_ops" where
  "exact_ops = \<lparr>f_of_int = of_int, f_add = (+), f_mul = (*),
                 f_round2 = (\<lambda>x. of_int (round (x * 100)) / 100)\<rparr>"

definition crest_tee :: "rat Product" where
  "crest_tee = \<lparr>p_slug = ''crest-tee'', p_name = Some ''Crest Tee'', p_price = Some 55,
     p_accent = Some ''#00E5FF'',
     p_images = Some [''https://images.unsplash.com/photo-1519741497674-611481863552?q=80&w=1600&auto=format&fit=crop'',
                      ''https://images.unsplash.com/photo-1490481651871-ab68de25d43d?q=80&w=1600&auto=format&fit=crop''],
     p_sizes = Some [\<lparr>ss_size = Some ''S'', ss_stock = Some 15\<rparr>, \<lparr>ss_size = Some ''M'', ss_stock = Some 12\<rparr>,
                     \<lparr>ss_size = Some ''L'', ss_stock = Some 6\<rparr>, \<lparr>ss_size = Some ''XL'', ss_stock = Some 1\<rparr>]\<rparr>"

text \<open>A product with every declared size out of stock.\<close>

definition sold_out_tee :: "rat Product" where
  "sold_out_tee = \<lparr>p_slug = ''sold-out-tee'', p_name = Some ''Sold Out Tee'', p_price = Some 30,
     p_accent = Some ''#7CFF2E'', p_images = Some [],
     p_sizes = Some [\<lparr>ss_size = Some ''S'', ss_stock = Some 0\<rparr>,
                     \<lparr>ss_size = Some ''M'', ss_stock = Some 0\<rparr>]\<rparr>"

text \<open>A product whose first size in stock has an empty label.\<close>

definition blank_tee :: "rat Product" where
  "blank_tee = \<lparr>p_slug = ''blank-tee'', p_name = Some ''Blank Tee'', p_price = Some 20,
     p_accent = Some ''#7CFF2E'', p_images = Some [],
     p_sizes = Some [\<lparr>ss_size = Some [], ss_stock = Some 3\<rparr>,
                     \<lparr>ss_size = Some ''M'', ss_stock = Some 2\<rparr>]\<rparr>"

definition ex_cart :: cart_doc where
  "ex_cart = \<lparr>c_id = ''c1'',
     c_items = [\<lparr>i_slug = ''crest-tee'', i_size = Some ''S'', i_qty = Some 3\<rparr>,
                \<lparr>i_slug = ''gone-cap'', i_size = Some ''M'', i_qty = Some 2\<rparr>],
     c_subtotal = None\<rparr>"

definition ex_db :: "rat db" where
  "ex_db = \<lparr>db_otp = [\<lparr>otp_phone = ''+15551230000'', otp_code = Some ''123456''\<rparr>],
            db_session = [], db_product = [crest_tee], db_cart = [ex_cart]\<rparr>"

section \<open>Facts about the store operations\<close>

lemma find_cart_None_iff: "find_cart cs cid = None \<longleftrightarrow> \<not> list_ex (\<lambda>d. c_id d = cid) cs"
  by (induction cs) (auto simp: find_cart_def)

lemma find_cart_Some_id: "find_cart cs cid = Some c \<Longrightarrow> c_id c = cid"
  by (induction cs) (auto simp: find_cart_def split: if_splits)

lemma insert_cart_absent:
  "find_cart cs (c_id c) = None \<Longrightarrow> insert_cart cs c = Inr (cs @ [c])"
  by (simp add: insert_cart_def find_cart_None_iff)

lemma find_cart_append:
  "find_cart (cs @ [c]) cid =
     (case find_cart cs cid of Some x \<Rightarrow> Some x | None \<Rightarrow> if c_id c = cid then Some c else None)"
  by (induction cs) (auto simp: find_cart_def)

lemma find_cart_set_items:
  "find_cart (set_items cs cid its) cid' =
     (if cid' = cid then map_option (\<lambda>c. c\<lparr>c_items := its\<rparr>) (find_cart cs cid) else find_cart cs cid')"
  by (induction cs) (auto simp: find_cart_def)

lemma set_items_twice: "set_items (set_items cs cid a) cid b = set_items cs cid b"
  by (induction cs) auto

lemma set_items_same:
  "find_cart cs cid = Some c \<Longrightarrow> c_items c = its \<Longrightarrow> set_items cs cid its = cs"
  by (induction cs) (auto simp: find_cart_def split: if_splits)

lemma cart_items_update_cart:
  "cart_items (fst (update_cart d cid pl)) cid' =
     (if cid' = cid then new_items pl (cart_items d cid) else cart_items d cid')"
  by (auto simp: update_cart_def cart_items_def find_cart_set_items split: option.splits)

lemma cart_items_get_cart:
  "cart_items (fst (get_cart F d cid)) cid' = cart_items d cid'"
  by (auto simp: get_cart_def cart_items_def insert_cart_absent find_cart_append Let_def
      split: option.splits sum.splits prod.splits)

lemma add_to_cart_ok:
  assumes "find_product (db_product d) (qa_slug pl) = Some p"
    and "resolve_size p (qa_size pl) = Some sz" and "sz \<noteq> []"
  shows "snd (add_to_cart d cid pl) = Inr ()"
    and "cart_items (fst (add_to_cart d cid pl)) cid' =
      (if cid' = cid then add_item (cart_items d cid) (qa_slug pl) sz (qa_qty pl) else cart_items d cid')"
    and "db_product (fst (add_to_cart d cid pl)) = db_product d"
  using assms
  by (auto simp: add_to_cart_def cart_items_def insert_cart_absent find_cart_append
      find_cart_set_items Let_def split: option.splits sum.splits prod.splits)

lemma add_to_cart_fail:
  "snd (add_to_cart d cid pl) = Inl e \<Longrightarrow> fst (add_to_cart d cid pl) = d"
  by (auto simp: add_to_cart_def insert_cart_absent Let_def
      split: option.splits sum.splits prod.splits if_splits)

lemma new_items_spec: "new_items pl its = spec_update pl its"
  by (induction its)
    (auto simp: spec_update_def spec_dropped_def spec_replaced_def matches_def truthy_bool_def
      split: option.splits)

lemma new_items_others:
  "filter (\<lambda>it. \<not> matches (ui_slug pl) (ui_size pl) it) (new_items pl its) =
   filter (\<lambda>it. \<not> matches (ui_slug pl) (ui_size pl) it) its"
  by (induction its) (auto simp: matches_def split: option.splits)

lemma new_items_dropped:
  "truthy_bool (ui_remove pl) \<or> (case ui_qty pl of None \<Rightarrow> False | Some q \<Rightarrow> q \<le> 0) \<Longrightarrow>
   new_items pl its = filter (\<lambda>it. \<not> matches (ui_slug pl) (ui_size pl) it) its"
  by (induction its) (auto simp: matches_def split: option.splits)

lemma update_cart_found:
  "find_cart (db_cart d) cid = Some cart \<Longrightarrow>
   update_cart d cid pl = (d\<lparr>db_cart := set_items (db_cart d) cid (new_items pl (c_items cart))\<rparr>, Inr ())"
  by (simp add: update_cart_def)

lemma new_items_remove_twice:
  "truthy_bool (ui_remove pl) \<Longrightarrow> new_items pl (new_items pl its) = new_items pl its"
  by (simp add: new_items_dropped)

lemma enrich_items_spec:
  "enrich_items F ps its acc =
     (map (spec_view_item ps) its,
      foldl (f_add F) acc (map (line_total F ps) (filter (resolves ps) its)))"
  by (induction its arbitrary: acc)
    (auto simp: spec_view_item_def line_total_def resolves_def split: option.splits)

lemma get_cart_result:
  "get_cart F d cid =
     (case find_cart (db_cart d) cid of
        Some cart \<Rightarrow> d
      | None \<Rightarrow> d\<lparr>db_cart := db_cart d @ [\<lparr>c_id = cid, c_items = [], c_subtotal = Some 0\<rparr>]\<rparr>,
      Inr \<lparr>v_id = cid, v_items = map (spec_view_item (db_product d)) (cart_items d cid),
           v_subtotal = spec_subtotal F (db_product d) (cart_items d cid)\<rparr>)"
  by (auto simp: get_cart_def Let_def enrich_items_spec spec_subtotal_def cart_items_def
      insert_cart_absent find_cart_Some_id split: option.splits)

section \<open>Facts about trimming and the pending codes\<close>

lemma dropWhile_id_iff: "dropWhile P xs = xs \<longleftrightarrow> (xs = [] \<or> \<not> P (hd xs))"
  by (rule dropWhile_eq_self_iff)

lemma last_dropWhile: "dropWhile P xs \<noteq> [] \<Longrightarrow> last (dropWhile P xs) = last xs"
  by (induction xs) (auto split: if_splits)

lemma strip_fixed_iff: "strip s = s \<longleftrightarrow> \<not> ws_at_ends s"
proof (cases "s = []")
  case True
  then show ?thesis by (simp add: strip_def ws_at_ends_def)
next
  case False
  show ?thesis
  proof (cases "is_space (hd s)")
    case True
    have "length (strip s) \<le> length (dropWhile is_space s)"
      by (simp add: strip_def length_dropWhile_le [of is_space "rev (dropWhile is_space s)", simplified])
    moreover have "length (dropWhile is_space s) < length s"
      using False True by (cases s) (auto simp: le_imp_less_Suc length_dropWhile_le)
    ultimately have "strip s \<noteq> s" by auto
    then show ?thesis using False True by (simp add: ws_at_ends_def)
  next
    case hd: False
    then have d: "dropWhile is_space s = s" by (simp add: dropWhile_id_iff)
    have "strip s = s \<longleftrightarrow> dropWhile is_space (rev s) = rev s"
      by (simp add: strip_def d rev_swap)
    also have "\<dots> \<longleftrightarrow> \<not> is_space (last s)"
      using False by (simp add: dropWhile_id_iff hd_rev)
    finally show ?thesis using False hd by (simp add: ws_at_ends_def)
  qed
qed

lemma strip_twice: "strip (strip s) = strip s"
proof -
  let ?t = "dropWhile is_space s"
  let ?u = "dropWhile is_space (rev ?t)"
  have u: "strip s = rev ?u" by (simp add: strip_def)
  have "\<not> ws_at_ends (rev ?u)"
  proof (cases "?u = []")
    case True
    then show ?thesis by (simp add: ws_at_ends_def)
  next
    case False
    then have h: "\<not> is_space (hd ?u)" by (rule hd_dropWhile)
    have t: "?t \<noteq> []"
    proof
      assume a: "?t = []"
      have "?u = []" unfolding a by simp
      with False show False ..
    qed
    then have ht: "\<not> is_space (hd ?t)" by (rule hd_dropWhile)
    have "last ?u = last (rev ?t)" using False by (rule last_dropWhile)
    then have "last ?u = hd ?t" using t by (simp add: last_rev)
    then show ?thesis using False h ht by (simp add: ws_at_ends_def hd_rev last_rev)
  qed
  then show ?thesis by (simp add: u strip_fixed_iff)
qed

lemma strip_trimmed: "\<not> ws_at_ends (strip s)"
  by (simp add: strip_fixed_iff [symmetric] strip_twice)

lemma find_otp_upsert:
  "find_otp (upsert_otp ds ph c) ph' =
     (if ph' = ph then Some \<lparr>otp_phone = ph, otp_code = Some c\<rparr> else find_otp ds ph')"
  by (induction ds) (auto simp: find_otp_def)

lemma find_otp_Some: "find_otp ds ph = Some doc \<Longrightarrow> doc \<in> set ds \<and> otp_phone doc = ph"
  by (induction ds) (auto simp: find_otp_def split: if_splits)

lemma set_upsert_otp:
  "x \<in> set (upsert_otp ds ph c) \<Longrightarrow> x \<in> set ds \<or> otp_phone x = ph"
  by (induction ds) (auto split: if_splits)

lemma otp_trimmed_request: "otp_trimmed d \<Longrightarrow> otp_trimmed (fst (request_otp d pl))"
  by (auto simp: otp_trimmed_def request_otp_def Let_def list_all_iff strip_trimmed
      dest!: set_upsert_otp)

lemma db_otp_verify: "db_otp (fst (verify_otp d oid pl)) = db_otp d"
  by (simp add: verify_otp_def split: option.splits sum.splits)

lemma db_otp_get_cart: "db_otp (fst (get_cart F d cid)) = db_otp d"
  by (simp add: get_cart_result split: option.splits)

lemma db_otp_add: "db_otp (fst (add_to_cart d cid pl)) = db_otp d"
  by (simp add: add_to_cart_def Let_def split: option.splits sum.splits prod.splits)

lemma db_otp_update: "db_otp (fst (update_cart d cid pl)) = db_otp d"
  by (simp add: update_cart_def split: option.splits)

lemma otp_trimmed_step: "otp_trimmed d \<Longrightarrow> otp_trimmed (step F d r)"
  by (cases r)
    (simp_all add: otp_trimmed_request,
     simp_all add: otp_trimmed_def db_otp_verify db_otp_get_cart db_otp_add db_otp_update)

lemma otp_trimmed_foldl: "otp_trimmed d \<Longrightarrow> otp_trimmed (foldl (step F) d rs)"
  by (induction rs arbitrary: d) (simp_all add: otp_trimmed_step)

lemma otp_trimmed_run: "otp_trimmed (run F (init_db ps) rs)"
proof -
  have "otp_trimmed (init_db ps)"
    by (simp add: otp_trimmed_def init_db_def)
  then show ?thesis
    by (simp add: run_def otp_trimmed_foldl)
qed

lemma verify_otp_trimmed_only:
  assumes "otp_trimmed d" and "snd (verify_otp d oid pl) = Inr sid"
  shows "\<not> ws_at_ends (ov_phone pl) \<and> list_ex (\<lambda>doc. otp_phone doc = ov_phone pl) (db_otp d)"
proof -
  obtain doc where "find_otp (db_otp d) (ov_phone pl) = Some doc"
    using assms(2) by (auto simp: verify_otp_def split: option.splits)
  then have "doc \<in> set (db_otp d)" and "otp_phone doc = ov_phone pl"
    by (auto dest: find_otp_Some)
  then show ?thesis
    using assms(1) by (auto simp: otp_trimmed_def list_all_iff list_ex_iff)
qed

lemma verify_otp_untrimmed:
  assumes "otp_trimmed d" and "ws_at_ends (ov_phone pl)"
  shows "verify_otp d oid pl = (d, Inl (HTTPException 401 ''Invalid code''))"
proof (cases "find_otp (db_otp d) (ov_phone pl)")
  case None
  then show ?thesis by (simp add: verify_otp_def)
next
  case (Some doc)
  then have "doc \<in> set (db_otp d)" and "otp_phone doc = ov_phone pl"
    by (auto dest: find_otp_Some)
  then have False using assms by (auto simp: otp_trimmed_def list_all_iff)
  then show ?thesis ..
qed

lemma insert_session_fresh:
  "\<not> list_ex (\<lambda>t. s_id t = s_id s) ss \<Longrightarrow> insert_session ss s = Inr (ss @ [s])"
  by (simp add: insert_session_def)

lemma verify_otp_fail_unchanged: "snd (verify_otp d oid pl) = Inl e \<Longrightarrow> fst (verify_otp d oid pl) = d"
  by (auto simp: verify_otp_def split: option.splits sum.splits if_splits)

lemma verify_otp_401_iff:
  "snd (verify_otp d oid pl) = Inl (HTTPException 401 ''Invalid code'') \<longleftrightarrow>
     (case find_otp (db_otp d) (ov_phone pl) of
        None \<Rightarrow> True
      | Some doc \<Rightarrow> otp_code doc \<noteq> Some (ov_code pl))"
  by (auto simp: verify_otp_def insert_session_def split: option.splits sum.splits)

section \<open>Facts about adding and the cart invariant\<close>

lemma find_matches_None: "find (matches sl sz) its = None \<longleftrightarrow> (sl, Some sz) \<notin> set (map item_key its)"
  by (induction its) (auto simp: matches_def item_key_def)

lemma incr_first_keys: "map item_key (incr_first its sl sz n) = map item_key its"
  by (induction its) (auto simp: item_key_def)

lemma incr_first_qty: "list_all qty_ok its \<Longrightarrow> 1 \<le> n \<Longrightarrow> list_all qty_ok (incr_first its sl sz n)"
  by (induction its) (auto simp: qty_ok_def qty_or_1_def split: option.splits)

lemma items_ok_add_item: "items_ok its \<Longrightarrow> items_ok (add_item its sl sz q)"
  by (auto simp: items_ok_def add_item_def incr_first_keys incr_first_qty find_matches_None
      qty_ok_def item_key_def split: option.splits)

lemma new_items_keys:
  "map item_key (new_items pl its) = map item_key (filter (\<lambda>it. \<not> spec_dropped pl it) its)"
  by (induction its)
    (auto simp: item_key_def spec_dropped_def matches_def truthy_bool_def split: option.splits)

lemma new_items_qty: "list_all qty_ok its \<Longrightarrow> list_all qty_ok (new_items pl its)"
  by (induction its) (auto simp: qty_ok_def split: option.splits)

lemma items_ok_new_items: "items_ok its \<Longrightarrow> items_ok (new_items pl its)"
  by (simp add: items_ok_def new_items_keys new_items_qty distinct_map_filter)

lemma cart_items_add_to_cart:
  "cart_items (fst (add_to_cart d cid pl)) cid' = cart_items d cid' \<or>
   (\<exists>sz. cart_items (fst (add_to_cart d cid pl)) cid' = add_item (cart_items d cid') (qa_slug pl) sz (qa_qty pl))"
  by (auto simp: add_to_cart_def cart_items_def insert_cart_absent find_cart_append
      find_cart_set_items Let_def split: option.splits sum.splits prod.splits)

lemma cart_items_request_otp: "cart_items (fst (request_otp d pl)) cid = cart_items d cid"
  by (simp add: request_otp_def cart_items_def Let_def)

lemma cart_items_verify_otp: "cart_items (fst (verify_otp d oid pl)) cid = cart_items d cid"
  by (simp add: verify_otp_def cart_items_def split: option.splits sum.splits)

lemma items_ok_step: "items_ok (cart_items d cid) \<Longrightarrow> items_ok (cart_items (step F d r) cid)"
proof (cases r)
  case (AddToCart c pl)
  assume ok: "items_ok (cart_items d cid)"
  from cart_items_add_to_cart [of d c pl cid] ok show ?thesis
    unfolding AddToCart by (auto simp: items_ok_add_item)
next
  case (UpdateCart c pl)
  assume "items_ok (cart_items d cid)"
  then show ?thesis
    unfolding UpdateCart by (cases "cid = c") (simp_all add: cart_items_update_cart items_ok_new_items)
qed (simp_all add: cart_items_request_otp cart_items_verify_otp cart_items_get_cart)

lemma items_ok_foldl: "items_ok (cart_items d cid) \<Longrightarrow> items_ok (cart_items (foldl (step F) d rs) cid)"
  by (induction rs arbitrary: d) (simp_all add: items_ok_step)

lemma add_item_fresh:
  "\<not> list_ex (matches sl sz) its \<Longrightarrow>
   add_item its sl sz q = its @ [\<lparr>i_slug = sl, i_size = Some sz, i_qty = Some (max 1 q)\<rparr>]"
proof -
  assume "\<not> list_ex (matches sl sz) its"
  then have "find (matches sl sz) its = None"
    by (simp add: find_None_iff list_ex_iff)
  then show ?thesis by (simp add: add_item_def)
qed

lemma incr_first_last:
  "\<not> list_ex (matches sl sz) its \<Longrightarrow>
   incr_first (its @ [\<lparr>i_slug = sl, i_size = Some sz, i_qty = Some n\<rparr>]) sl sz k =
     its @ [\<lparr>i_slug = sl, i_size = Some sz, i_qty = Some (n + k)\<rparr>]"
  by (induction its) (auto simp: matches_def qty_or_1_def)

lemma find_matches_last:
  "\<not> list_ex (matches sl sz) its \<Longrightarrow>
   find (matches sl sz) (its @ [\<lparr>i_slug = sl, i_size = Some sz, i_qty = Some n\<rparr>]) =
     Some \<lparr>i_slug = sl, i_size = Some sz, i_qty = Some n\<rparr>"
  by (induction its) (auto simp: matches_def)

lemma add_item_last:
  "\<not> list_ex (matches sl sz) its \<Longrightarrow>
   add_item (its @ [\<lparr>i_slug = sl, i_size = Some sz, i_qty = Some n\<rparr>]) sl sz q =
     its @ [\<lparr>i_slug = sl, i_size = Some sz, i_qty = Some (n + max 1 q)\<rparr>]"
  by (simp add: add_item_def find_matches_last incr_first_last)

lemma add_all_merged:
  assumes "find_product (db_product d) sl = Some p" and "sz \<noteq> []"
    and "list_all (\<lambda>pl. qa_slug pl = sl \<and> resolve_size p (qa_size pl) = Some sz) pls"
    and "\<not> list_ex (matches sl sz) its"
    and "cart_items d cid = its @ [\<lparr>i_slug = sl, i_size = Some sz, i_qty = Some n\<rparr>]"
  shows "snd (add_all d cid pls) = replicate (length pls) (Inr ()) \<and>
         cart_items (fst (add_all d cid pls)) cid =
           its @ [\<lparr>i_slug = sl, i_size = Some sz,
                   i_qty = Some (n + sum_list (map (\<lambda>pl. max 1 (qa_qty pl)) pls))\<rparr>]"
  using assms
proof (induction pls arbitrary: d n)
  case Nil
  then show ?case by simp
next
  case (Cons pl pls)
  let ?d1 = "fst (add_to_cart d cid pl)"
  have pl: "qa_slug pl = sl" "resolve_size p (qa_size pl) = Some sz"
    using Cons.prems(3) by simp_all
  have fp: "find_product (db_product d) (qa_slug pl) = Some p"
    using Cons.prems(1) pl by simp
  have r: "snd (add_to_cart d cid pl) = Inr ()"
    using fp pl(2) Cons.prems(2) by (rule add_to_cart_ok(1))
  have prod: "db_product ?d1 = db_product d"
    using fp pl(2) Cons.prems(2) by (rule add_to_cart_ok(3))
  have items: "cart_items ?d1 cid =
      its @ [\<lparr>i_slug = sl, i_size = Some sz, i_qty = Some (n + max 1 (qa_qty pl))\<rparr>]"
    using add_to_cart_ok(2) [OF fp pl(2) Cons.prems(2), of cid cid] Cons.prems(4,5) pl(1)
    by (simp add: add_item_last)
  have rest: "list_all (\<lambda>pl. qa_slug pl = sl \<and> resolve_size p (qa_size pl) = Some sz) pls"
    using Cons.prems(3) by simp
  have fp1: "find_product (db_product ?d1) sl = Some p"
    using Cons.prems(1) prod by simp
  note ih = Cons.IH [OF fp1 Cons.prems(2) rest Cons.prems(4) items]
  show ?case
    using ih r by (simp add: split_beta Let_def add.assoc)
qed

lemma add_to_cart_size_fallback:
  assumes "find_product (db_product d) (qa_slug pl) = Some p"
    and "resolve_size p (qa_size pl) = Some sz" and "sz \<noteq> []"
  shows "add_to_cart d cid pl = add_to_cart d cid (pl\<lparr>qa_size := Some sz\<rparr>)"
  using assms by (simp add: add_to_cart_def resolve_size_def truthy_str_def)

lemma add_to_cart_no_size:
  assumes "find_product (db_product d) (qa_slug pl) = Some p"
    and "resolve_size p (qa_size pl) = None \<or> resolve_size p (qa_size pl) = Some []"
  shows "add_to_cart d cid pl = (d, Inl (HTTPException 400 ''No available size''))"
  using assms by (auto simp: add_to_cart_def)

text \<open>The default size: what is selected, and what the call then does.\<close>

lemma find_Some_split:
  "find P xs = Some s \<Longrightarrow>
   \<exists>pre post. xs = pre @ s # post \<and> list_all (\<lambda>t. \<not> P t) pre \<and> P s"
proof (induction xs)
  case Nil
  then show ?case by simp
next
  case (Cons x xs)
  show ?case
  proof (cases "P x")
    case True
    with Cons.prems have "x = s" by simp
    with True have "x # xs = [] @ s # xs \<and> list_all (\<lambda>t. \<not> P t) [] \<and> P s" by simp
    then show ?thesis by blast
  next
    case False
    with Cons.prems have "find P xs = Some s" by simp
    then obtain pre post where "xs = pre @ s # post" "list_all (\<lambda>t. \<not> P t) pre" "P s"
      using Cons.IH by blast
    with False have "x # xs = (x # pre) @ s # post \<and> list_all (\<lambda>t. \<not> P t) (x # pre) \<and> P s"
      by simp
    then show ?thesis by blast
  qed
qed

lemma find_None_all: "find P xs = None \<longleftrightarrow> list_all (\<lambda>t. \<not> P t) xs"
  by (induction xs) auto

lemma resolve_size_omitted:
  "\<not> truthy_str sz \<Longrightarrow>
   resolve_size p sz = (case find in_stock (declared_sizes p) of None \<Rightarrow> None | Some s \<Rightarrow> ss_size s)"
  by (simp add: resolve_size_def first_available_def)

lemma default_size_selected:
  assumes "\<not> truthy_str (qa_size pl)"
  shows "(\<exists>pre s post. declared_sizes p = pre @ s # post \<and> list_all (\<lambda>t. \<not> in_stock t) pre \<and>
             in_stock s \<and> resolve_size p (qa_size pl) = ss_size s) \<or>
         (list_all (\<lambda>t. \<not> in_stock t) (declared_sizes p) \<and> resolve_size p (qa_size pl) = None)"
proof (cases "find in_stock (declared_sizes p)")
  case None
  then have "resolve_size p (qa_size pl) = None"
    using assms by (simp add: resolve_size_omitted)
  moreover have "list_all (\<lambda>t. \<not> in_stock t) (declared_sizes p)"
    using None by (simp only: find_None_all)
  ultimately show ?thesis by blast
next
  case (Some s)
  then have "resolve_size p (qa_size pl) = ss_size s"
    using assms by (simp add: resolve_size_omitted)
  with find_Some_split [OF Some] show ?thesis by blast
qed

lemma default_size_none_fails:
  assumes "find_product (db_product d) (qa_slug pl) = Some p" and "\<not> truthy_str (qa_size pl)"
    and "declared_sizes p = [] \<or> list_all (\<lambda>t. \<not> in_stock t) (declared_sizes p)"
  shows "add_to_cart d cid pl = (d, Inl (HTTPException 400 ''No available size''))"
proof -
  have "find in_stock (declared_sizes p) = None"
    using assms(3) by (auto simp: find_None_all)
  then have "resolve_size p (qa_size pl) = None"
    using assms(2) by (simp add: resolve_size_omitted)
  then show ?thesis
    using assms(1) by (simp add: add_to_cart_no_size)
qed

lemma add_to_cart_outcome:
  assumes "find_product (db_product d) (qa_slug pl) = Some p" and "\<not> truthy_str (qa_size pl)"
  shows "case find in_stock (declared_sizes p) of
           None \<Rightarrow> add_to_cart d cid pl = (d, Inl (HTTPException 400 ''No available size''))
         | Some s \<Rightarrow>
             (case ss_size s of
                None \<Rightarrow> add_to_cart d cid pl = (d, Inl (HTTPException 400 ''No available size''))
              | Some label \<Rightarrow>
                  if label = []
                  then add_to_cart d cid pl = (d, Inl (HTTPException 400 ''No available size''))
                  else add_to_cart d cid pl = add_to_cart d cid (pl\<lparr>qa_size := Some label\<rparr>) \<and>
                       snd (add_to_cart d cid pl) = Inr () \<and>
                       cart_items (fst (add_to_cart d cid pl)) cid =
                         add_item (cart_items d cid) (qa_slug pl) label (qa_qty pl))"
proof (cases "find in_stock (declared_sizes p)")
  case None
  then have "resolve_size p (qa_size pl) = None"
    using assms(2) by (simp add: resolve_size_def first_available_def)
  then show ?thesis
    using None assms(1) by (simp add: add_to_cart_no_size)
next
  case (Some s)
  then have rs: "resolve_size p (qa_size pl) = ss_size s"
    using assms(2) by (simp add: resolve_size_def first_available_def)
  show ?thesis
  proof (cases "ss_size s")
    case None
    then show ?thesis
      using Some rs assms(1) by (simp add: add_to_cart_no_size)
  next
    case (Some label)
    note lab = Some
    show ?thesis
    proof (cases "label = []")
      case True
      then show ?thesis
        using \<open>find in_stock (declared_sizes p) = Some s\<close> lab rs assms(1)
        by (simp add: add_to_cart_no_size)
    next
      case False
      have r: "resolve_size p (qa_size pl) = Some label"
        using rs lab by simp
      show ?thesis
        using \<open>find in_stock (declared_sizes p) = Some s\<close> lab False
          add_to_cart_size_fallback [OF assms(1) r False, of cid]
          add_to_cart_ok(1) [OF assms(1) r False, of cid]
          add_to_cart_ok(2) [OF assms(1) r False, of cid cid]
        by simp
    qed
  qed
qed

text \<open>The branch of the empty label, on \<open>blank_tee\<close>.\<close>

lemma blank_label_rejected:
  "find_product (db_product (init_db [blank_tee])) ''blank-tee'' = Some blank_tee \<and>
   find in_stock (declared_sizes blank_tee) = Some \<lparr>ss_size = Some [], ss_stock = Some 3\<rparr> \<and>
   add_to_cart (init_db [blank_tee]) ''c1'' \<lparr>qa_slug = ''blank-tee'', qa_size = None, qa_qty = 1\<rparr> =
     (init_db [blank_tee], Inl (HTTPException 400 ''No available size''))"
  by (simp add: init_db_def find_product_def blank_tee_def declared_sizes_def in_stock_def
      add_to_cart_def resolve_size_def truthy_str_def first_available_def)

section \<open>The cart claims\<close>

text \<open>Claim C4. For every store and every cart identity, \<^verbatim>\<open>get_cart\<close> returns without
  an error; the subtotal of the returned view is the rounded sum, over exactly the line
  items whose slug resolves in the catalog, of quantity times the product's current
  price; an item whose slug does not resolve adds nothing and is returned as it is
  stored, without enrichment fields.\<close>

theorem get_cart_subtotal:
  "snd (get_cart F d cid) =
     Inr \<lparr>v_id = cid, v_items = map (spec_view_item (db_product d)) (cart_items d cid),
          v_subtotal = spec_subtotal F (db_product d) (cart_items d cid)\<rparr>"
  by (simp add: get_cart_result)

theorem get_cart_subtotal_witness:
  "snd (get_cart exact_ops ex_db ''c1'') =
     Inr \<lparr>v_id = ''c1'',
          v_items = [(\<lparr>i_slug = ''crest-tee'', i_size = Some ''S'', i_qty = Some 3\<rparr>, Some (enrich crest_tee)),
                     (\<lparr>i_slug = ''gone-cap'', i_size = Some ''M'', i_qty = Some 2\<rparr>, None)],
          v_subtotal = 165\<rparr>"
  using get_cart_subtotal [of exact_ops ex_db "''c1''"]
  by (simp add: ex_db_def ex_cart_def cart_items_def find_cart_def find_product_def crest_tee_def
      spec_view_item_def spec_subtotal_def resolves_def line_total_def exact_ops_def
      qty_or_1_def price_or_0_def)

text \<open>Claim C5. On an existing cart, \<^verbatim>\<open>update_cart\<close> succeeds and stores the item sequence
  of the specification's update rule: matching items dropped (on \<open>remove\<close>, or a supplied
  quantity of at most 0) or given the supplied quantity in place of their own, all other
  items unchanged and in their order. With \<open>qty = 0\<close> no matching item is left.\<close>

theorem update_cart_items:
  assumes "find_cart (db_cart d) cid = Some cart"
  shows "snd (update_cart d cid pl) = Inr () \<and>
     cart_items (fst (update_cart d cid pl)) cid = spec_update pl (c_items cart) \<and>
     filter (\<lambda>it. \<not> matches (ui_slug pl) (ui_size pl) it) (cart_items (fst (update_cart d cid pl)) cid) =
       filter (\<lambda>it. \<not> matches (ui_slug pl) (ui_size pl) it) (c_items cart) \<and>
     (ui_qty pl = Some 0 \<longrightarrow>
        \<not> list_ex (matches (ui_slug pl) (ui_size pl)) (cart_items (fst (update_cart d cid pl)) cid))"
proof -
  have items: "cart_items d cid = c_items cart"
    using assms by (simp add: cart_items_def)
  have after: "cart_items (fst (update_cart d cid pl)) cid = new_items pl (c_items cart)"
    by (simp add: cart_items_update_cart items)
  have gone: "\<not> list_ex (matches (ui_slug pl) (ui_size pl)) (new_items pl (c_items cart))"
    if "ui_qty pl = Some 0"
    using that by (simp add: new_items_dropped list_ex_iff)
  show ?thesis
    using assms after gone
    by (simp add: update_cart_found new_items_spec [symmetric] new_items_others)
qed

theorem update_cart_items_witness:
  "find_cart (db_cart ex_db) ''c1'' = Some ex_cart \<and>
   cart_items (fst (update_cart ex_db ''c1''
       \<lparr>ui_slug = ''crest-tee'', ui_size = ''S'', ui_qty = Some 0, ui_remove = None\<rparr>)) ''c1'' =
     [\<lparr>i_slug = ''gone-cap'', i_size = Some ''M'', i_qty = Some 2\<rparr>]"
  using update_cart_items [of ex_db "''c1''" ex_cart
      "\<lparr>ui_slug = ''crest-tee'', ui_size = ''S'', ui_qty = Some 0, ui_remove = None\<rparr>"]
  by (simp add: ex_db_def ex_cart_def find_cart_def spec_update_def spec_dropped_def
      spec_replaced_def matches_def)

text \<open>Claim C6. For a cart identity that is not in the store, \<^verbatim>\<open>get_cart\<close> does not fail:
  it appends one cart document with no items and returns a view with no items. After
  that the store holds exactly one cart document of that identity, and every further call
  returns the same view and leaves the store as it is.\<close>

theorem get_cart_fresh:
  assumes "find_cart (db_cart d) cid = None"
  shows "get_cart F d cid =
           (d\<lparr>db_cart := db_cart d @ [\<lparr>c_id = cid, c_items = [], c_subtotal = Some 0\<rparr>]\<rparr>,
            Inr \<lparr>v_id = cid, v_items = [], v_subtotal = f_round2 F (f_of_int F 0)\<rparr>) \<and>
         length (filter (\<lambda>c. c_id c = cid) (db_cart (fst (get_cart F d cid)))) = 1 \<and>
         get_cart F (fst (get_cart F d cid)) cid = (fst (get_cart F d cid), snd (get_cart F d cid)) \<and>
         ((\<lambda>s. fst (get_cart F s cid)) ^^ n) (fst (get_cart F d cid)) = fst (get_cart F d cid)"
proof -
  let ?d1 = "d\<lparr>db_cart := db_cart d @ [\<lparr>c_id = cid, c_items = [], c_subtotal = Some 0\<rparr>]\<rparr>"
  let ?v = "\<lparr>v_id = cid, v_items = [], v_subtotal = f_round2 F (f_of_int F 0)\<rparr>"
  have first: "get_cart F d cid = (?d1, Inr ?v)"
    using assms by (simp add: get_cart_result cart_items_def spec_subtotal_def)
  have none: "filter (\<lambda>c. c_id c = cid) (db_cart d) = []"
    using assms by (simp add: find_cart_None_iff list_ex_iff filter_empty_conv)
  have found: "find_cart (db_cart ?d1) cid = Some \<lparr>c_id = cid, c_items = [], c_subtotal = Some 0\<rparr>"
    using assms by (simp add: find_cart_append)
  have again: "get_cart F ?d1 cid = (?d1, Inr ?v)"
    using found by (simp add: get_cart_result cart_items_def spec_subtotal_def)
  have iter: "((\<lambda>s. fst (get_cart F s cid)) ^^ n) ?d1 = ?d1"
    by (induction n) (simp_all add: again)
  show ?thesis
    using none again iter by (simp add: first)
qed

theorem get_cart_fresh_witness:
  "find_cart (db_cart ex_db) ''c2'' = None \<and>
   get_cart exact_ops ex_db ''c2'' =
     (ex_db\<lparr>db_cart := [ex_cart, \<lparr>c_id = ''c2'', c_items = [], c_subtotal = Some 0\<rparr>]\<rparr>,
      Inr \<lparr>v_id = ''c2'', v_items = [], v_subtotal = 0\<rparr>)"
  using get_cart_fresh [of ex_db "''c2''" exact_ops 3]
  by (simp add: ex_db_def ex_cart_def find_cart_def exact_ops_def)

text \<open>Claim C7. With \<open>remove\<close> set, \<^verbatim>\<open>update_cart\<close> applied a second time gives the store
  (and the response) of the first application.\<close>

theorem update_cart_remove_idem:
  assumes "truthy_bool (ui_remove pl)"
  shows "update_cart (fst (update_cart d cid pl)) cid pl = update_cart d cid pl"
proof (cases "find_cart (db_cart d) cid")
  case None
  then show ?thesis by (simp add: update_cart_def)
next
  case (Some cart)
  then show ?thesis
    using assms
    by (simp add: update_cart_def find_cart_set_items set_items_twice new_items_remove_twice)
qed

theorem update_cart_remove_idem_witness:
  "truthy_bool (Some True) \<and>
   update_cart (fst (update_cart ex_db ''c1''
       \<lparr>ui_slug = ''crest-tee'', ui_size = ''S'', ui_qty = None, ui_remove = Some True\<rparr>)) ''c1''
       \<lparr>ui_slug = ''crest-tee'', ui_size = ''S'', ui_qty = None, ui_remove = Some True\<rparr> =
   (ex_db\<lparr>db_cart := [ex_cart\<lparr>c_items := [\<lparr>i_slug = ''gone-cap'', i_size = Some ''M'', i_qty = Some 2\<rparr>]\<rparr>]\<rparr>, Inr ())"
  using update_cart_remove_idem [of "\<lparr>ui_slug = ''crest-tee'', ui_size = ''S'', ui_qty = None, ui_remove = Some True\<rparr>"
      ex_db "''c1''"]
  by (simp add: ex_db_def ex_cart_def find_cart_def update_cart_def truthy_bool_def)

text \<open>Claim C9. For a cart that is in the store, \<^verbatim>\<open>get_cart\<close> leaves the whole store as it
  is: the enrichment fields and the subtotal are part of the returned view only.\<close>

theorem get_cart_existing_unchanged:
  "find_cart (db_cart d) cid = Some cart \<Longrightarrow> fst (get_cart F d cid) = d"
  by (simp add: get_cart_def Let_def split: prod.splits)

theorem get_cart_existing_unchanged_witness:
  "find_cart (db_cart ex_db) ''c1'' = Some ex_cart \<and> fst (get_cart exact_ops ex_db ''c1'') = ex_db"
  using get_cart_existing_unchanged [of ex_db "''c1''" ex_cart exact_ops]
  by (simp add: ex_db_def ex_cart_def find_cart_def)

text \<open>Claim C1. Take a cart with no line item for a (slug, size) pair, and any non-empty
  sequence of \<^verbatim>\<open>add_to_cart\<close> calls on that cart whose slug is that slug and whose size
  resolves to that size. Every call succeeds; afterwards the cart is the old item
  sequence followed by one line item for the pair, whose quantity is the sum of
  \<open>max 1 qty\<close> over the calls, and it is the only item of that pair. (Applied to every
  prefix of the sequence: the first call appends the item, each later one increments it.)\<close>

theorem add_to_cart_merges:
  assumes "find_product (db_product d) sl = Some p" and "sz \<noteq> []"
    and "list_all (\<lambda>pl. qa_slug pl = sl \<and> resolve_size p (qa_size pl) = Some sz) pls"
    and "pls \<noteq> []"
    and "\<not> list_ex (matches sl sz) (cart_items d cid)"
  shows "snd (add_all d cid pls) = replicate (length pls) (Inr ()) \<and>
         cart_items (fst (add_all d cid pls)) cid =
           cart_items d cid @ [\<lparr>i_slug = sl, i_size = Some sz,
                   i_qty = Some (sum_list (map (\<lambda>pl. max 1 (qa_qty pl)) pls))\<rparr>] \<and>
         length (filter (matches sl sz) (cart_items (fst (add_all d cid pls)) cid)) = 1"
proof -
  obtain pl rest where pls: "pls = pl # rest"
    using assms(4) by (cases pls) auto
  let ?d1 = "fst (add_to_cart d cid pl)"
  have pl: "qa_slug pl = sl" "resolve_size p (qa_size pl) = Some sz"
    using assms(3) pls by simp_all
  have fp: "find_product (db_product d) (qa_slug pl) = Some p"
    using assms(1) pl by simp
  have r: "snd (add_to_cart d cid pl) = Inr ()"
    using fp pl(2) assms(2) by (rule add_to_cart_ok(1))
  have prod: "find_product (db_product ?d1) sl = Some p"
    using add_to_cart_ok(3) [OF fp pl(2) assms(2)] assms(1) by simp
  have items: "cart_items ?d1 cid =
      cart_items d cid @ [\<lparr>i_slug = sl, i_size = Some sz, i_qty = Some (max 1 (qa_qty pl))\<rparr>]"
    using add_to_cart_ok(2) [OF fp pl(2) assms(2), of cid cid] assms(5) pl(1)
    by (simp add: add_item_fresh)
  have rest: "list_all (\<lambda>pl. qa_slug pl = sl \<and> resolve_size p (qa_size pl) = Some sz) rest"
    using assms(3) pls by simp
  note m = add_all_merged [OF prod assms(2) rest assms(5) items]
  have none: "filter (matches sl sz) (cart_items d cid) = []"
    using assms(5) by (simp add: list_ex_iff filter_empty_conv)
  show ?thesis
    using m r none by (simp add: pls split_beta Let_def matches_def)
qed

theorem add_to_cart_merges_witness:
  "find_product (db_product (init_db [crest_tee])) ''crest-tee'' = Some crest_tee \<and>
   list_all (\<lambda>pl. qa_slug pl = ''crest-tee'' \<and> resolve_size crest_tee (qa_size pl) = Some ''S'')
     [\<lparr>qa_slug = ''crest-tee'', qa_size = None, qa_qty = 1\<rparr>,
      \<lparr>qa_slug = ''crest-tee'', qa_size = Some ''S'', qa_qty = 2\<rparr>] \<and>
   \<not> list_ex (matches ''crest-tee'' ''S'') (cart_items (init_db [crest_tee]) ''c1'') \<and>
   cart_items (fst (add_all (init_db [crest_tee]) ''c1''
     [\<lparr>qa_slug = ''crest-tee'', qa_size = None, qa_qty = 1\<rparr>,
      \<lparr>qa_slug = ''crest-tee'', qa_size = Some ''S'', qa_qty = 2\<rparr>])) ''c1'' =
     [\<lparr>i_slug = ''crest-tee'', i_size = Some ''S'', i_qty = Some 3\<rparr>]"
proof -
  let ?pls = "[\<lparr>qa_slug = ''crest-tee'', qa_size = None, qa_qty = 1\<rparr>,
      \<lparr>qa_slug = ''crest-tee'', qa_size = Some ''S'', qa_qty = 2\<rparr>]"
  have p: "find_product (db_product (init_db [crest_tee])) ''crest-tee'' = Some crest_tee"
    by (simp add: init_db_def find_product_def crest_tee_def)
  have r: "list_all (\<lambda>pl. qa_slug pl = ''crest-tee'' \<and> resolve_size crest_tee (qa_size pl) = Some ''S'') ?pls"
    by (simp add: crest_tee_def resolve_size_def truthy_str_def first_available_def
        declared_sizes_def in_stock_def)
  have e: "cart_items (init_db [crest_tee]) ''c1'' = []"
    by (simp add: init_db_def cart_items_def find_cart_def)
  from add_to_cart_merges [of "init_db [crest_tee]" "''crest-tee''" crest_tee "''S''" ?pls "''c1''"]
    p r e
  show ?thesis by simp
qed

text \<open>Claim C2. From a store in which a cart is absent or empty, after any sequence of
  requests (\<^verbatim>\<open>add_to_cart\<close> and \<^verbatim>\<open>update_cart\<close> on any cart among them), no two line items of
  that cart have the same (slug, size) pair and every line item has a quantity of at
  least 1.\<close>

theorem cart_invariant:
  assumes "cart_items d cid = []"
  shows "distinct (map item_key (cart_items (run F d rs) cid)) \<and>
         list_all qty_ok (cart_items (run F d rs) cid)"
proof -
  have "items_ok (cart_items d cid)"
    using assms by (simp add: items_ok_def)
  then have "items_ok (cart_items (run F d rs) cid)"
    unfolding run_def by (rule items_ok_foldl)
  then show ?thesis by (simp add: items_ok_def)
qed

theorem cart_invariant_witness:
  "cart_items (init_db [crest_tee]) ''c1'' = [] \<and>
   distinct (map item_key (cart_items (run exact_ops (init_db [crest_tee])
     [AddToCart ''c1'' \<lparr>qa_slug = ''crest-tee'', qa_size = None, qa_qty = 0\<rparr>,
      AddToCart ''c1'' \<lparr>qa_slug = ''crest-tee'', qa_size = Some ''M'', qa_qty = 2\<rparr>,
      UpdateCart ''c1'' \<lparr>ui_slug = ''crest-tee'', ui_size = ''S'', ui_qty = Some 4, ui_remove = None\<rparr>]) ''c1'')) \<and>
   list_all qty_ok (cart_items (run exact_ops (init_db [crest_tee])
     [AddToCart ''c1'' \<lparr>qa_slug = ''crest-tee'', qa_size = None, qa_qty = 0\<rparr>,
      AddToCart ''c1'' \<lparr>qa_slug = ''crest-tee'', qa_size = Some ''M'', qa_qty = 2\<rparr>,
      UpdateCart ''c1'' \<lparr>ui_slug = ''crest-tee'', ui_size = ''S'', ui_qty = Some 4, ui_remove = None\<rparr>]) ''c1'')"
proof -
  have e: "cart_items (init_db [crest_tee]) ''c1'' = []"
    by (simp add: init_db_def cart_items_def find_cart_def)
  from e cart_invariant [OF e] show ?thesis by simp
qed

text \<open>Claim C3. When the size is omitted (or empty) and the product resolves, the size
  \<^verbatim>\<open>add_to_cart\<close> selects is the label of the first declared size whose stock is greater
  than 0: every size declared before it is out of stock. If the product declares no sizes
  or no declared size is in stock, the call fails with 400 and the store is unchanged.
  The last conjunct gives the outcome in every case: with a non-empty selected label the
  call succeeds and does what the call with that label supplied does; with no selection,
  or a missing or empty label, it fails with 400 and the store is unchanged.\<close>

theorem add_to_cart_default_size:
  assumes "find_product (db_product d) (qa_slug pl) = Some p" and "\<not> truthy_str (qa_size pl)"
  shows "((\<exists>pre s post. declared_sizes p = pre @ s # post \<and> list_all (\<lambda>t. \<not> in_stock t) pre \<and>
             in_stock s \<and> resolve_size p (qa_size pl) = ss_size s) \<or>
          (list_all (\<lambda>t. \<not> in_stock t) (declared_sizes p) \<and> resolve_size p (qa_size pl) = None)) \<and>
         (declared_sizes p = [] \<or> list_all (\<lambda>t. \<not> in_stock t) (declared_sizes p) \<longrightarrow>
            add_to_cart d cid pl = (d, Inl (HTTPException 400 ''No available size''))) \<and>
         (case find in_stock (declared_sizes p) of
            None \<Rightarrow> add_to_cart d cid pl = (d, Inl (HTTPException 400 ''No available size''))
          | Some s \<Rightarrow>
              (case ss_size s of
                 None \<Rightarrow> add_to_cart d cid pl = (d, Inl (HTTPException 400 ''No available size''))
               | Some label \<Rightarrow>
                   if label = []
                   then add_to_cart d cid pl = (d, Inl (HTTPException 400 ''No available size''))
                   else add_to_cart d cid pl = add_to_cart d cid (pl\<lparr>qa_size := Some label\<rparr>) \<and>
                        snd (add_to_cart d cid pl) = Inr () \<and>
                        cart_items (fst (add_to_cart d cid pl)) cid =
                          add_item (cart_items d cid) (qa_slug pl) label (qa_qty pl)))"
proof -
  note sel = default_size_selected [OF assms(2), of p]
  have fail: "add_to_cart d cid pl = (d, Inl (HTTPException 400 ''No available size''))"
    if "declared_sizes p = [] \<or> list_all (\<lambda>t. \<not> in_stock t) (declared_sizes p)"
    using assms that by (rule default_size_none_fails)
  note out = add_to_cart_outcome [OF assms, of cid]
  from sel fail out show ?thesis by blast
qed

theorem add_to_cart_default_size_witness:
  "find_product (db_product (init_db [crest_tee, sold_out_tee])) ''crest-tee'' = Some crest_tee \<and>
   find_product (db_product (init_db [crest_tee, sold_out_tee])) ''sold-out-tee'' = Some sold_out_tee \<and>
   \<not> truthy_str None \<and>
   find in_stock (declared_sizes crest_tee) = Some \<lparr>ss_size = Some ''S'', ss_stock = Some 15\<rparr> \<and>
   snd (add_to_cart (init_db [crest_tee, sold_out_tee]) ''c1''
       \<lparr>qa_slug = ''crest-tee'', qa_size = None, qa_qty = 1\<rparr>) = Inr () \<and>
   cart_items (fst (add_to_cart (init_db [crest_tee, sold_out_tee]) ''c1''
       \<lparr>qa_slug = ''crest-tee'', qa_size = None, qa_qty = 1\<rparr>)) ''c1'' =
     [\<lparr>i_slug = ''crest-tee'', i_size = Some ''S'', i_qty = Some 1\<rparr>] \<and>
   list_all (\<lambda>t. \<not> in_stock t) (declared_sizes sold_out_tee) \<and>
   add_to_cart (init_db [crest_tee, sold_out_tee]) ''c1''
       \<lparr>qa_slug = ''sold-out-tee'', qa_size = None, qa_qty = 1\<rparr> =
     (init_db [crest_tee, sold_out_tee], Inl (HTTPException 400 ''No available size''))"
proof -
  let ?d = "init_db [crest_tee, sold_out_tee]"
  let ?pl = "\<lparr>qa_slug = ''crest-tee'', qa_size = None, qa_qty = 1\<rparr>"
  let ?pl' = "\<lparr>qa_slug = ''sold-out-tee'', qa_size = None, qa_qty = 1\<rparr>"
  have p: "find_product (db_product ?d) (qa_slug ?pl) = Some crest_tee"
    by (simp add: init_db_def find_product_def crest_tee_def)
  have p': "find_product (db_product ?d) (qa_slug ?pl') = Some sold_out_tee"
    by (simp add: init_db_def find_product_def crest_tee_def sold_out_tee_def)
  have t: "\<not> truthy_str (qa_size ?pl)" and t': "\<not> truthy_str (qa_size ?pl')"
    by (simp_all add: truthy_str_def)
  have f: "find in_stock (declared_sizes crest_tee) = Some \<lparr>ss_size = Some ''S'', ss_stock = Some 15\<rparr>"
    by (simp add: crest_tee_def declared_sizes_def in_stock_def)
  have n: "list_all (\<lambda>t. \<not> in_stock t) (declared_sizes sold_out_tee)"
    by (simp add: sold_out_tee_def declared_sizes_def in_stock_def)
  have e: "cart_items ?d ''c1'' = []"
    by (simp add: init_db_def cart_items_def find_cart_def)
  note c = add_to_cart_default_size [OF p t, of "''c1''", THEN conjunct2, THEN conjunct2]
  have ok: "snd (add_to_cart ?d ''c1'' ?pl) = Inr () \<and>
      cart_items (fst (add_to_cart ?d ''c1'' ?pl)) ''c1'' = add_item [] ''crest-tee'' ''S'' 1"
    using c by (auto simp: f e)
  note c' = add_to_cart_default_size [OF p' t', of "''c1''", THEN conjunct2, THEN conjunct1]
  have no: "add_to_cart ?d ''c1'' ?pl' = (?d, Inl (HTTPException 400 ''No available size''))"
    using c' n by simp
  show ?thesis
    using p p' t f n ok no by (simp add: add_item_def)
qed

section \<open>The one-time code claims\<close>

text \<open>Claim C8. \<^verbatim>\<open>verify_otp\<close> fails with 401 exactly when the store has no pending code for
  the phone or the supplied code is not the stored one, and then the store is unchanged.
  On a match, with a fresh identity, it appends one session document linking that
  identity to the phone and returns the identity. The pending codes are never changed.\<close>

theorem verify_otp_unauthorized:
  "(snd (verify_otp d oid pl) = Inl (HTTPException 401 ''Invalid code'') \<longleftrightarrow>
      (case find_otp (db_otp d) (ov_phone pl) of
         None \<Rightarrow> True
       | Some doc \<Rightarrow> otp_code doc \<noteq> Some (ov_code pl))) \<and>
   (snd (verify_otp d oid pl) = Inl (HTTPException 401 ''Invalid code'') \<longrightarrow>
      fst (verify_otp d oid pl) = d) \<and>
   (find_otp (db_otp d) (ov_phone pl) = Some doc \<and> otp_code doc = Some (ov_code pl) \<and>
    \<not> list_ex (\<lambda>t. s_id t = oid) (db_session d) \<longrightarrow>
      verify_otp d oid pl =
        (d\<lparr>db_session := db_session d @ [\<lparr>s_id = oid, s_phone = ov_phone pl\<rparr>]\<rparr>, Inr oid)) \<and>
   db_otp (fst (verify_otp d oid pl)) = db_otp d"
proof -
  have ok: "verify_otp d oid pl =
      (d\<lparr>db_session := db_session d @ [\<lparr>s_id = oid, s_phone = ov_phone pl\<rparr>]\<rparr>, Inr oid)"
    if "find_otp (db_otp d) (ov_phone pl) = Some doc" and "otp_code doc = Some (ov_code pl)"
      and "\<not> list_ex (\<lambda>t. s_id t = oid) (db_session d)"
    using that by (simp add: verify_otp_def insert_session_fresh)
  have same: "fst (verify_otp d oid pl) = d"
    if "snd (verify_otp d oid pl) = Inl (HTTPException 401 ''Invalid code'')"
    using that by (rule verify_otp_fail_unchanged)
  note iff = verify_otp_401_iff [of d oid pl] and otp = db_otp_verify [of d oid pl]
  from iff same ok otp show ?thesis by blast
qed

theorem verify_otp_unauthorized_witness:
  "find_otp (db_otp ex_db) ''+15551230000'' = Some \<lparr>otp_phone = ''+15551230000'', otp_code = Some ''123456''\<rparr> \<and>
   \<not> list_ex (\<lambda>t. s_id t = ''65f0c0ffee000000000000a1'') (db_session ex_db) \<and>
   verify_otp ex_db ''65f0c0ffee000000000000a1'' \<lparr>ov_phone = ''+15551230000'', ov_code = ''123456''\<rparr> =
     (ex_db\<lparr>db_session := [\<lparr>s_id = ''65f0c0ffee000000000000a1'', s_phone = ''+15551230000''\<rparr>]\<rparr>,
      Inr ''65f0c0ffee000000000000a1'')"
  using verify_otp_unauthorized [of ex_db "''65f0c0ffee000000000000a1''"
      "\<lparr>ov_phone = ''+15551230000'', ov_code = ''123456''\<rparr>"
      "\<lparr>otp_phone = ''+15551230000'', otp_code = Some ''123456''\<rparr>"]
  by (simp add: ex_db_def find_otp_def)

text \<open>Claim C10. In a store reached from the initial one, after \<^verbatim>\<open>request_otp\<close> with a phone
  that has whitespace at an end, \<^verbatim>\<open>verify_otp\<close> with the same untrimmed phone fails with 401
  for every code, the stored one included. Verification succeeds only for a phone that is
  trimmed and equals a stored phone. The code is stored under the trimmed phone, and
  verifying the stored code with the trimmed phone is not rejected with 401.\<close>

theorem verify_otp_phone_untrimmed:
  "(let d = fst (request_otp (run F (init_db ps) rs) \<lparr>or_phone = phone\<rparr>) in
     (ws_at_ends phone \<longrightarrow>
        verify_otp d oid \<lparr>ov_phone = phone, ov_code = code\<rparr> =
          (d, Inl (HTTPException 401 ''Invalid code''))) \<and>
     (snd (verify_otp d oid \<lparr>ov_phone = phone', ov_code = code\<rparr>) = Inr sid \<longrightarrow>
        strip phone' = phone' \<and> list_ex (\<lambda>doc. otp_phone doc = phone') (db_otp d)) \<and>
     (strip phone \<noteq> [] \<longrightarrow>
        find_otp (db_otp d) (strip phone) =
          Some \<lparr>otp_phone = strip phone, otp_code = Some ''123456''\<rparr> \<and>
        snd (verify_otp d oid \<lparr>ov_phone = strip phone, ov_code = ''123456''\<rparr>)
          \<noteq> Inl (HTTPException 401 ''Invalid code'')))"
proof -
  define d where "d = fst (request_otp (run F (init_db ps) rs) \<lparr>or_phone = phone\<rparr>)"
  have tr: "otp_trimmed d"
    unfolding d_def by (rule otp_trimmed_request) (rule otp_trimmed_run)
  have a: "verify_otp d oid \<lparr>ov_phone = phone, ov_code = code\<rparr> =
      (d, Inl (HTTPException 401 ''Invalid code''))" if "ws_at_ends phone"
    using tr that by (simp add: verify_otp_untrimmed)
  have b: "strip phone' = phone' \<and> list_ex (\<lambda>doc. otp_phone doc = phone') (db_otp d)"
    if "snd (verify_otp d oid \<lparr>ov_phone = phone', ov_code = code\<rparr>) = Inr sid"
    using verify_otp_trimmed_only [OF tr that] by (simp add: strip_fixed_iff)
  have c: "find_otp (db_otp d) (strip phone) =
      Some \<lparr>otp_phone = strip phone, otp_code = Some ''123456''\<rparr>" if "strip phone \<noteq> []"
    using that by (simp add: d_def request_otp_def find_otp_upsert)
  have c': "snd (verify_otp d oid \<lparr>ov_phone = strip phone, ov_code = ''123456''\<rparr>)
      \<noteq> Inl (HTTPException 401 ''Invalid code'')" if "strip phone \<noteq> []"
    using c [OF that] by (simp add: verify_otp_401_iff)
  show ?thesis
    unfolding Let_def d_def [symmetric] using a b c c' by blast
qed

theorem verify_otp_phone_untrimmed_witness:
  "ws_at_ends '' +15551230000'' \<and>
   verify_otp (fst (request_otp (run exact_ops (init_db [crest_tee]) []) \<lparr>or_phone = '' +15551230000''\<rparr>))
       ''65f0c0ffee000000000000a1'' \<lparr>ov_phone = '' +15551230000'', ov_code = ''123456''\<rparr> =
     (fst (request_otp (run exact_ops (init_db [crest_tee]) []) \<lparr>or_phone = '' +15551230000''\<rparr>),
      Inl (HTTPException 401 ''Invalid code'')) \<and>
   strip '' +15551230000'' = ''+15551230000''"
  using verify_otp_phone_untrimmed [of exact_ops "[crest_tee]" "[]" "'' +15551230000''"
      "''65f0c0ffee000000000000a1''" "''123456''" "''+15551230000''" "''65f0c0ffee000000000000a1''"]
  by (simp add: ws_at_ends_def is_space_def strip_def Let_def)

end
